theory Spec2Isabelle
  imports Complex_Main "HOL-Library.Word"
begin

section \<open>The add-product modal (src/components/AddProductModal.tsx)\<close>

text \<open>
  The component keeps a draft product in six \<open>useState\<close> cells and two camera refs, and
  reacts to user events with the handlers \<open>handleSizeToggle\<close>, \<open>handleStockChange\<close>,
  \<open>handleImageUpload\<close>, \<open>startCamera\<close>, \<open>capturePhoto\<close>, \<open>stopCamera\<close> and \<open>handleSubmit\<close>.
  Each handler is embedded as a function from the state before the event to the state after
  it; what a handler does to the outside (\<open>alert\<close>, the \<open>onAdd\<close> and \<open>onClose\<close> callbacks)
  is returned as a list of effects. The JavaScript built-ins the handlers call
  (\<open>String.prototype.trim\<close>, \<open>parseInt\<close>, \<open>parseFloat\<close>, \<open>isNaN\<close>, \<open>||\<close>, the comparisons)
  are embedded first, following ECMA-262.
\<close>

subsection \<open>Strings\<close>

text \<open>
  A JavaScript string is a sequence of 16-bit code units. \<open>str\<close> embeds an ASCII literal.
\<close>

type_synonym code_unit = "16 word"
type_synonym jsstring = "code_unit list"

definition str :: "string \<Rightarrow> jsstring" where
  "str cs = map of_char cs"

text \<open>
  \<open>StrWhiteSpaceChar\<close> of ECMA-262: WhiteSpace (TAB, VT, FF, ZWNBSP and the space
  separators of Unicode) and LineTerminator (LF, CR, LS, PS). All of them are single code
  units.
\<close>

definition isStrWhiteSpaceChar :: "code_unit \<Rightarrow> bool" where
  "isStrWhiteSpaceChar c \<longleftrightarrow>
     c = 0x0009 \<or> c = 0x000B \<or> c = 0x000C \<or> c = 0xFEFF \<or>
     c = 0x0020 \<or> c = 0x00A0 \<or> c = 0x1680 \<or> (0x2000 \<le> c \<and> c \<le> 0x200A) \<or>
     c = 0x202F \<or> c = 0x205F \<or> c = 0x3000 \<or>
     c = 0x000A \<or> c = 0x000D \<or> c = 0x2028 \<or> c = 0x2029"

definition trimStart :: "jsstring \<Rightarrow> jsstring" where
  "trimStart s = dropWhile isStrWhiteSpaceChar s"

definition trimEnd :: "jsstring \<Rightarrow> jsstring" where
  "trimEnd s = rev (dropWhile isStrWhiteSpaceChar (rev s))"

definition trim :: "jsstring \<Rightarrow> jsstring" where
  "trim s = trimEnd (trimStart s)"

subsection \<open>Numbers\<close>

text \<open>
  A JavaScript number is NaN, an infinity or a finite double. A finite double is kept as
  the rational it denotes; the two zeros are one value \<open>Fin 0\<close>. The component cannot tell
  them apart: it only compares numbers (\<open><=\<close>, \<open>>=\<close>), tests them with \<open>isNaN\<close> and with
  \<open>||\<close>, and both zeros behave alike under all of these; and it stores no zero it parsed,
  since \<open>parseInt(value) || 0\<close> replaces either zero by the literal \<open>0\<close> and a zero price is
  rejected.
\<close>

datatype number = NaN | Fin rat | PosInf | NegInf

text \<open>The comparison \<open>x <= y\<close>: false as soon as one side is NaN.\<close>

fun num_le :: "number \<Rightarrow> number \<Rightarrow> bool" where
  "num_le NaN y = False"
| "num_le x NaN = False"
| "num_le NegInf y = True"
| "num_le x PosInf = True"
| "num_le (Fin a) (Fin b) = (a \<le> b)"
| "num_le x y = False"

definition num_ge :: "number \<Rightarrow> number \<Rightarrow> bool" where
  "num_ge x y = num_le y x"

definition num_lt :: "number \<Rightarrow> number \<Rightarrow> bool" where
  "num_lt x y \<longleftrightarrow> num_le x y \<and> x \<noteq> y"

definition num_gt :: "number \<Rightarrow> number \<Rightarrow> bool" where
  "num_gt x y = num_lt y x"

definition isNaN :: "number \<Rightarrow> bool" where
  "isNaN x \<longleftrightarrow> x = NaN"

text \<open>\<open>ToBoolean\<close> on a number: NaN and zero are falsy.\<close>

definition truthy :: "number \<Rightarrow> bool" where
  "truthy x \<longleftrightarrow> x \<noteq> NaN \<and> x \<noteq> Fin 0"

subsection \<open>Rounding to a double\<close>

text \<open>
  \<open>toDouble p q\<close> is the Number value for the mathematical value \<open>p / q\<close> (\<open>q > 0\<close>):
  IEEE 754 binary64, round to nearest, ties to even. A magnitude of at least
  \<open>2^1024 - 2^970\<close>, that is \<open>2^1023 * (2 - 2^-53)\<close>, rounds to an infinity. Below that,
  \<open>e\<close> is the exponent of the binade of \<open>p / q\<close>, not below the one of the subnormals, and
  the result is the multiple of \<open>2^(e - 52)\<close> nearest to \<open>p / q\<close>.
\<close>

definition pow2 :: "int \<Rightarrow> rat" where
  "pow2 k = (if 0 \<le> k then 2 ^ nat k else 1 / 2 ^ nat (- k))"

function bitLength :: "int \<Rightarrow> int" where
  "bitLength n = (if n \<le> 0 then 0 else 1 + bitLength (n div 2))"
  by pat_completeness auto
termination
  by (relation "measure nat") auto

definition floorLog2 :: "int \<Rightarrow> int \<Rightarrow> int" where
  "floorLog2 a q =
     (let k = bitLength a - bitLength q
      in if (if 0 \<le> k then 2 ^ nat k * q \<le> a else q \<le> a * 2 ^ nat (- k)) then k else k - 1)"

definition roundTiesToEven :: "int \<Rightarrow> int \<Rightarrow> int" where
  "roundTiesToEven n d =
     (let f = n div d; r = n mod d
      in if 2 * r < d then f else if d < 2 * r then f + 1 else if even f then f else f + 1)"

definition toDouble :: "int \<Rightarrow> int \<Rightarrow> number" where
  "toDouble p q =
     (let a = \<bar>p\<bar>
      in if a = 0 then Fin 0
         else if (2 ^ 1024 - 2 ^ 970) * q \<le> a then (if 0 < p then PosInf else NegInf)
         else
           let e = max (floorLog2 a q) (- 1022);
               m = (if e \<le> 52 then roundTiesToEven (a * 2 ^ nat (52 - e)) q
                    else roundTiesToEven a (q * 2 ^ nat (e - 52)))
           in Fin (of_int (if 0 < p then m else - m) * pow2 (e - 52)))"

subsection \<open>parseInt and parseFloat\<close>

definition isDigit :: "code_unit \<Rightarrow> bool" where
  "isDigit c \<longleftrightarrow> 0x30 \<le> c \<and> c \<le> 0x39"

definition isHexDigit :: "code_unit \<Rightarrow> bool" where
  "isHexDigit c \<longleftrightarrow> isDigit c \<or> (0x41 \<le> c \<and> c \<le> 0x46) \<or> (0x61 \<le> c \<and> c \<le> 0x66)"

definition digitVal :: "code_unit \<Rightarrow> int" where
  "digitVal c = (if isDigit c then uint c - 0x30
                 else if 0x61 \<le> c then uint c - 0x61 + 10 else uint c - 0x41 + 10)"

definition digitsValue :: "int \<Rightarrow> code_unit list \<Rightarrow> int" where
  "digitsValue R ds = foldl (\<lambda>acc c. R * acc + digitVal c) 0 ds"

text \<open>
  \<open>parseInt(string)\<close> with no radix: leading white space is dropped, a sign is read, a
  prefix \<open>0x\<close> or \<open>0X\<close> selects radix 16 (radix 10 otherwise), and the longest run \<open>Z\<close>
  of digits of that radix is the integer; with no digit the result is NaN.
\<close>

definition parseInt :: "jsstring \<Rightarrow> number" where
  "parseInt inputString =
     (let S = trimStart inputString;
          neg = (case S of c # r \<Rightarrow> c = 0x2D | [] \<Rightarrow> False);
          S1 = (case S of c # r \<Rightarrow> if c = 0x2B \<or> c = 0x2D then r else S | [] \<Rightarrow> S);
          hex = (case S1 of a # b # r \<Rightarrow> a = 0x30 \<and> (b = 0x78 \<or> b = 0x58) | _ \<Rightarrow> False);
          R = (if hex then 16 else 10);
          S2 = (if hex then drop 2 S1 else S1);
          Z = takeWhile (if hex then isHexDigit else isDigit) S2;
          mathInt = digitsValue R Z
      in if Z = [] then NaN
         else toDouble (if neg then - mathInt else mathInt) 1)"

text \<open>
  The exponent part of a \<open>StrDecimalLiteral\<close>: \<open>e\<close> or \<open>E\<close>, an optional sign and at least
  one digit. An incomplete exponent is not part of the literal and counts as exponent 0.
\<close>

definition exponentPart :: "jsstring \<Rightarrow> int" where
  "exponentPart r =
     (case r of
        [] \<Rightarrow> 0
      | c # r1 \<Rightarrow>
          if c = 0x65 \<or> c = 0x45 then
            (let eneg = (case r1 of d # r2 \<Rightarrow> d = 0x2D | [] \<Rightarrow> False);
                 r3 = (case r1 of d # r2 \<Rightarrow> if d = 0x2B \<or> d = 0x2D then r2 else r1 | [] \<Rightarrow> r1);
                 ds = takeWhile isDigit r3;
                 v = digitsValue 10 ds
             in if ds = [] then 0 else if eneg then - v else v)
          else 0)"

text \<open>
  \<open>parseFloat(string)\<close>: leading white space is dropped and the longest prefix that is a
  \<open>StrDecimalLiteral\<close> is read: a sign, then either \<open>Infinity\<close> or digits with an optional
  fraction and exponent (\<open>ip\<close> the integer digits, \<open>fp\<close> the fraction digits). With no
  such prefix the result is NaN. The literal denotes \<open>m * 10^k\<close>, which is rounded to a
  double. (ECMA-262 lets an implementation round after the 20th significant digit; the
  exact rounding is taken here, for \<open>parseInt\<close> as well.)
\<close>

definition parseFloat :: "jsstring \<Rightarrow> number" where
  "parseFloat inputString =
     (let S = trimStart inputString;
          neg = (case S of c # r \<Rightarrow> c = 0x2D | [] \<Rightarrow> False);
          S1 = (case S of c # r \<Rightarrow> if c = 0x2B \<or> c = 0x2D then r else S | [] \<Rightarrow> S)
      in if take 8 S1 = str ''Infinity'' then (if neg then NegInf else PosInf)
         else
           let ip = takeWhile isDigit S1;
               r1 = dropWhile isDigit S1;
               dot = (case r1 of c # r \<Rightarrow> c = 0x2E | [] \<Rightarrow> False);
               fp = (if dot then takeWhile isDigit (tl r1) else []);
               r2 = (if dot then dropWhile isDigit (tl r1) else r1);
               m = digitsValue 10 (ip @ fp);
               k = exponentPart r2 - int (length fp);
               p = (if neg then - m else m)
           in if ip = [] \<and> fp = [] then NaN
              else if 0 \<le> k then toDouble (p * 10 ^ nat k) 1
              else toDouble p (10 ^ nat (- k)))"

subsection \<open>The data of the component\<close>

text \<open>\<open>type ProductType = 'clothing' | 'shoes'\<close> (line 10).\<close>

datatype ProductType = Clothing | Shoes

text \<open>
  Modelled from the spec: the declarations of \<open>ProductSize\<close> and \<open>ShoeSize\<close> (imported from
  \<open>../types\<close>) are not among the sources. The spec calls them fixed enumerations, the
  clothing sizes S to 6XL and the shoe sizes 36 to 45; these are the literals of
  \<open>clothingSizes\<close>, \<open>shoeSizes\<close> and of the two \<open>SizeRecord\<close> literals of the source (lines
  19 to 25 and 108 to 111). \<open>SizeLabel\<close> is the union \<open>ProductSize | ShoeSize\<close>; the
  constructor \<open>Sz_4XL\<close> stands for the label \<open>'4XL'\<close>, and so on.
\<close>

datatype SizeLabel =
    Sz_S | Sz_M | Sz_L | Sz_XL | Sz_XXL | Sz_XXXL | Sz_4XL | Sz_5XL | Sz_6XL
  | Sz_36 | Sz_37 | Sz_38 | Sz_39 | Sz_40 | Sz_41 | Sz_42 | Sz_43 | Sz_44 | Sz_45

text \<open>
  \<open>type SizeRecord = Record<ProductSize | ShoeSize, number>\<close> (line 11): an object, kept
  as a map from its keys to their values, so that the set of keys of an object is the
  domain of the map.
\<close>

type_synonym SizeRecord = "SizeLabel \<rightharpoonup> number"

text \<open>
  Modelled from the spec: the declaration of \<open>Product\<close> (imported from \<open>../types\<close>) is not
  among the sources. \<open>Omit<Product, 'id'>\<close> has the fields of the object literal that
  \<open>handleSubmit\<close> builds (lines 113 to 125), which the spec lists as the creation request:
  name, price, image, type, sizes, createdAt.
\<close>

record Product =
  product_name :: jsstring
  product_price :: number
  product_image :: jsstring
  product_type :: ProductType
  product_sizes :: SizeRecord
  product_createdAt :: number

text \<open>
  The camera: a \<open>MediaStream\<close> is the list of its tracks (\<open>getTracks()\<close>), a track is
  known by its identity, and the platform keeps each track's \<open>readyState\<close>, which
  \<open>track.stop()\<close> sets to ended. Of the video element the handlers read \<open>videoWidth\<close>,
  \<open>videoHeight\<close> and the frame that \<open>drawImage\<close> copies, and write \<open>srcObject\<close>; of the
  canvas they set \<open>width\<close> and \<open>height\<close> and draw the frame on it.
\<close>

type_synonym track = nat

datatype trackState = Live | Ended

type_synonym MediaStream = "track list"

record HTMLVideoElement =
  srcObject :: "MediaStream option"
  videoWidth :: nat
  videoHeight :: nat
  currentFrame :: nat

record HTMLCanvasElement =
  width :: nat
  height :: nat
  drawn :: "nat option"

text \<open>
  The state of the component: the six \<open>useState\<close> cells (lines 14 to 22; the cell \<open>image\<close>
  is the field \<open>image'\<close>), the refs \<open>videoRef.current\<close> and \<open>streamRef.current\<close> (lines 28
  and 29; null is \<open>None\<close>), and the platform's \<open>readyState\<close> of every track.
\<close>

record state =
  name :: jsstring
  price :: jsstring
  image' :: jsstring
  type :: ProductType
  currentSizes :: "SizeLabel list"
  sizes :: SizeRecord
  videoRef :: "HTMLVideoElement option"
  streamRef :: "MediaStream option"
  readyState :: "track \<Rightarrow> trackState"

text \<open>
  What a handler does to the outside: \<open>e.preventDefault()\<close>, \<open>alert(message)\<close>,
  \<open>console.error\<close>, and the callbacks \<open>onAdd(product)\<close> and \<open>onClose()\<close> of the props.
\<close>

datatype effect =
    PreventDefault
  | Alert jsstring
  | ConsoleError
  | OnAdd Product
  | OnClose

text \<open>The object literal of lines 19 to 22, the same as \<open>initialSizes\<close> of lines 108 to 111.\<close>

definition initialSizes :: SizeRecord where
  "initialSizes =
     [Sz_S \<mapsto> Fin 0, Sz_M \<mapsto> Fin 0, Sz_L \<mapsto> Fin 0, Sz_XL \<mapsto> Fin 0, Sz_XXL \<mapsto> Fin 0,
      Sz_XXXL \<mapsto> Fin 0, Sz_4XL \<mapsto> Fin 0, Sz_5XL \<mapsto> Fin 0, Sz_6XL \<mapsto> Fin 0,
      Sz_36 \<mapsto> Fin 0, Sz_37 \<mapsto> Fin 0, Sz_38 \<mapsto> Fin 0, Sz_39 \<mapsto> Fin 0, Sz_40 \<mapsto> Fin 0,
      Sz_41 \<mapsto> Fin 0, Sz_42 \<mapsto> Fin 0, Sz_43 \<mapsto> Fin 0, Sz_44 \<mapsto> Fin 0, Sz_45 \<mapsto> Fin 0]"

text \<open>The state at mount: the initial values of the cells and refs; every track is live.\<close>

definition initial :: state where
  "initial =
     \<lparr>name = [], price = [], image' = [], type = Clothing, currentSizes = [],
      sizes = initialSizes, videoRef = None, streamRef = None,
      readyState = (\<lambda>t. Live)\<rparr>"

definition clothingSizes :: "SizeLabel list" where
  "clothingSizes = [Sz_S, Sz_M, Sz_L, Sz_XL, Sz_XXL, Sz_XXXL, Sz_4XL, Sz_5XL, Sz_6XL]"

definition shoeSizes :: "SizeLabel list" where
  "shoeSizes = [Sz_36, Sz_37, Sz_38, Sz_39, Sz_40, Sz_41, Sz_42, Sz_43, Sz_44, Sz_45]"

subsection \<open>The handlers\<close>

text \<open>
  Lines 31 to 37: \<open>prev.includes(size) ? prev.filter(s => s !== size) : [...prev, size]\<close>.
\<close>

definition handleSizeToggle :: "SizeLabel \<Rightarrow> state \<Rightarrow> state" where
  "handleSizeToggle sz st =
     st\<lparr>currentSizes :=
          (let prev = currentSizes st
           in if sz \<in> set prev then filter (\<lambda>s. s \<noteq> sz) prev else prev @ [sz])\<rparr>"

text \<open>
  Lines 39 to 45: \<open>stockValue = parseInt(value) || 0\<close>, then the entry of \<open>size\<close> becomes
  \<open>stockValue >= 0 ? stockValue : 0\<close> in a copy of the previous object.
\<close>

definition handleStockChange :: "SizeLabel \<Rightarrow> jsstring \<Rightarrow> state \<Rightarrow> state" where
  "handleStockChange sz v st =
     (let parsed = parseInt v;
          stockValue = (if truthy parsed then parsed else Fin 0)
      in st\<lparr>sizes := (sizes st)(sz \<mapsto> (if num_ge stockValue (Fin 0) then stockValue else Fin 0))\<rparr>)"

text \<open>Lines 179 to 182, the \<open>onChange\<close> of the type select: \<open>setType\<close>, then \<open>setCurrentSizes([])\<close>.\<close>

definition onTypeChange :: "ProductType \<Rightarrow> state \<Rightarrow> state" where
  "onTypeChange t st = st\<lparr>type := t, currentSizes := []\<rparr>"

text \<open>
  Lines 51 to 54, the \<open>onloadend\<close> of the file reader: \<open>setImage(reader.result as string)\<close>,
  with the data URI the reader produced.
\<close>

definition onloadend :: "jsstring \<Rightarrow> state \<Rightarrow> state" where
  "onloadend base64String st = st\<lparr>image' := base64String\<rparr>"

text \<open>
  The three alert texts (lines 68, 98 and 104); their letters outside ASCII are written
  as code units: u-umlaut 0xFC, c-cedilla 0xE7, s-cedilla 0x15F, g-breve 0x11F, dotless i
  0x131.
\<close>

definition msgCamera :: jsstring where
  "msgCamera =
     str ''Kamera eri'' @ [0x15F] @ str ''imi sa'' @ [0x11F] @ str ''lanamad'' @ [0x131] @ str ''.''"

definition msgFields :: jsstring where
  "msgFields =
     str ''L'' @ [0xFC] @ str ''tfen t'' @ [0xFC] @ str ''m alanlar'' @ [0x131] @ str '' doldurun.''"

definition msgPrice :: jsstring where
  "msgPrice = str ''Ge'' @ [0xE7] @ str ''erli bir fiyat girin.''"

text \<open>
  Lines 59 to 70, \<open>startCamera\<close>, after \<open>getUserMedia\<close> has settled. Resolved with a stream:
  the stream becomes the \<open>srcObject\<close> of the video element if there is one, and
  \<open>streamRef.current\<close> in any case. Rejected: the error is logged and an alert is shown.
\<close>

definition startCamera_resolved :: "MediaStream \<Rightarrow> state \<Rightarrow> state" where
  "startCamera_resolved stream st =
     st\<lparr>videoRef := (case videoRef st of None \<Rightarrow> None
                       | Some video \<Rightarrow> Some (video\<lparr>srcObject := Some stream\<rparr>)),
        streamRef := Some stream\<rparr>"

definition startCamera_rejected :: "state \<Rightarrow> state \<times> effect list" where
  "startCamera_rejected st = (st, [ConsoleError, Alert msgCamera])"

text \<open>
  Lines 87 to 92: if \<open>streamRef.current\<close> is set, \<open>stop()\<close> is called on each track of
  \<open>getTracks()\<close> in turn, and \<open>streamRef.current\<close> becomes null.
\<close>

definition stopCamera :: "state \<Rightarrow> state" where
  "stopCamera st =
     (case streamRef st of
        None \<Rightarrow> st
      | Some stream \<Rightarrow>
          st\<lparr>readyState := foldl (\<lambda>rs track. rs(track := Ended)) (readyState st) stream,
             streamRef := None\<rparr>)"

text \<open>
  Lines 72 to 85. The guard is \<open>videoRef.current\<close>; \<open>ctx\<close> says whether
  \<open>canvas.getContext('2d')\<close> returned a context, and \<open>toDataURL\<close> is the platform's encoder
  of a canvas for a MIME type. The canvas gets the video's \<open>videoWidth\<close> and \<open>videoHeight\<close>,
  the current frame is drawn at its origin, the encoding becomes the image and
  \<open>stopCamera\<close> runs.
\<close>

definition capturePhoto ::
  "(jsstring \<Rightarrow> HTMLCanvasElement \<Rightarrow> jsstring) \<Rightarrow> bool \<Rightarrow> state \<Rightarrow> state" where
  "capturePhoto toDataURL ctx st =
     (case videoRef st of
        None \<Rightarrow> st
      | Some video \<Rightarrow>
          if ctx then
            (let canvas = \<lparr>width = videoWidth video, height = videoHeight video,
                            drawn = Some (currentFrame video)\<rparr>;
                 base64Image = toDataURL (str ''image/jpeg'') canvas
             in stopCamera (st\<lparr>image' := base64Image\<rparr>))
          else st)"

text \<open>
  \<open>Object.fromEntries\<close>: the entries are added in order, a later entry for a key
  replacing an earlier one. \<open>orZero\<close> is \<open>sizes[size] || 0\<close>, where a missing key reads as
  \<open>undefined\<close>.
\<close>

definition fromEntries :: "('k \<times> 'v) list \<Rightarrow> ('k \<rightharpoonup> 'v)" where
  "fromEntries entries = foldl (\<lambda>obj (k, v). obj(k \<mapsto> v)) Map.empty entries"

definition orZero :: "number option \<Rightarrow> number" where
  "orZero x = (case x of None \<Rightarrow> Fin 0 | Some v \<Rightarrow> if truthy v then v else Fin 0)"

text \<open>
  Lines 94 to 129. The first guard is \<open>!name.trim() || !price || !image\<close> (an empty string
  is falsy), the second \<open>isNaN(numericPrice) || numericPrice <= 0\<close>; each alerts and
  returns. Otherwise the product is built, with the spread of \<open>initialSizes\<close> overridden
  by the entries of the selected sizes, and handed to \<open>onAdd\<close>; then \<open>onClose\<close> is called.
  \<open>now\<close> is the result of \<open>Date.now()\<close>. No setter is called on any path.
\<close>

definition handleSubmit :: "number \<Rightarrow> state \<Rightarrow> state \<times> effect list" where
  "handleSubmit now st =
     (if trim (name st) = [] \<or> price st = [] \<or> image' st = [] then
        (st, [PreventDefault, Alert msgFields])
      else
        let numericPrice = parseFloat (price st)
        in if isNaN numericPrice \<or> num_le numericPrice (Fin 0) then
             (st, [PreventDefault, Alert msgPrice])
           else
             let product =
                   \<lparr>product_name = trim (name st),
                    product_price = numericPrice,
                    product_image = image' st,
                    product_type = type st,
                    product_sizes =
                      initialSizes ++
                      fromEntries (map (\<lambda>size. (size, orZero (sizes st size))) (currentSizes st)),
                    product_createdAt = now\<rparr>
             in (st, [PreventDefault, OnAdd product, OnClose]))"

subsection \<open>Events\<close>

text \<open>
  The events the rendered form can deliver (lines 131 to 328): typing a name or a price,
  choosing a type, clicking a size button, editing a stock input, the end of a file read,
  removing the image, the outcome of a camera request, the two buttons of the camera
  overlay, closing, and submitting (with the clock's reading).
\<close>

datatype event =
    SetName jsstring
  | SetPrice jsstring
  | SelectType ProductType
  | ClickSize SizeLabel
  | ChangeStock SizeLabel jsstring
  | FileLoaded jsstring
  | RemoveImage
  | CameraGranted MediaStream
  | CameraDenied
  | ClickCapture bool
  | ClickStopCamera
  | ClickClose
  | SubmitForm number

text \<open>Line 198: the size buttons are those of \<open>type === 'clothing' ? clothingSizes : shoeSizes\<close>.\<close>

definition sizeCatalog :: "ProductType \<Rightarrow> SizeLabel list" where
  "sizeCatalog t = (if t = Clothing then clothingSizes else shoeSizes)"

text \<open>
  Which controls the render shows in a state: a size button for each label of the
  catalog of the current type (line 198), a stock input for each selected size (line
  217), the remove button only over an image (line 238), the camera overlay only when
  \<open>videoRef.current\<close> is set (line 301). The other controls are always there; the end of
  a file read and the outcome of a camera request may arrive in any state.
\<close>

fun rendered :: "state \<Rightarrow> event \<Rightarrow> bool" where
  "rendered st (ClickSize sz) = (sz \<in> set (sizeCatalog (type st)))"
| "rendered st (ChangeStock sz v) = (sz \<in> set (currentSizes st))"
| "rendered st RemoveImage = (image' st \<noteq> [])"
| "rendered st (ClickCapture ctx) = (videoRef st \<noteq> None)"
| "rendered st ClickStopCamera = (videoRef st \<noteq> None)"
| "rendered st ev = True"

fun handle ::
  "(jsstring \<Rightarrow> HTMLCanvasElement \<Rightarrow> jsstring) \<Rightarrow> event \<Rightarrow> state \<Rightarrow> state \<times> effect list" where
  "handle toDataURL (SetName v) st = (st\<lparr>name := v\<rparr>, [])"
| "handle toDataURL (SetPrice v) st = (st\<lparr>price := v\<rparr>, [])"
| "handle toDataURL (SelectType t) st = (onTypeChange t st, [])"
| "handle toDataURL (ClickSize sz) st = (handleSizeToggle sz st, [])"
| "handle toDataURL (ChangeStock sz v) st = (handleStockChange sz v st, [])"
| "handle toDataURL (FileLoaded result) st = (onloadend result st, [])"
| "handle toDataURL RemoveImage st = (st\<lparr>image' := []\<rparr>, [])"
| "handle toDataURL (CameraGranted stream) st = (startCamera_resolved stream st, [])"
| "handle toDataURL CameraDenied st = startCamera_rejected st"
| "handle toDataURL (ClickCapture ctx) st = (capturePhoto toDataURL ctx st, [])"
| "handle toDataURL ClickStopCamera st = (stopCamera st, [])"
| "handle toDataURL ClickClose st = (st, [OnClose])"
| "handle toDataURL (SubmitForm now) st = handleSubmit now st"

text \<open>
  A run of the component: the events are handled one at a time, each in the state the
  previous one left; the effects are collected in order. An event whose control is not
  rendered cannot occur, and the run is \<open>None\<close>.
\<close>

fun run ::
  "(jsstring \<Rightarrow> HTMLCanvasElement \<Rightarrow> jsstring) \<Rightarrow> state \<Rightarrow> event list \<Rightarrow> (state \<times> effect list) option" where
  "run toDataURL st [] = Some (st, [])"
| "run toDataURL st (ev # evs) =
     (if rendered st ev then
        (case handle toDataURL ev st of
           (st', fx) \<Rightarrow>
             (case run toDataURL st' evs of
                None \<Rightarrow> None
              | Some (st'', fx') \<Rightarrow> Some (st'', fx @ fx')))
      else None)"

subsection \<open>Invariants of the stock map\<close>

text \<open>
  \<open>stockNonNegative\<close>: every quantity of the stock map is \<open>>= 0\<close>. \<open>stockComplete\<close>: every
  label has a quantity, and it is \<open>>= 0\<close>.
\<close>

definition stockNonNegative :: "state \<Rightarrow> bool" where
  "stockNonNegative st \<longleftrightarrow>
     list_all (\<lambda>sz. case sizes st sz of None \<Rightarrow> True | Some q \<Rightarrow> num_ge q (Fin 0))
       (clothingSizes @ shoeSizes)"

definition stockComplete :: "state \<Rightarrow> bool" where
  "stockComplete st \<longleftrightarrow>
     list_all (\<lambda>sz. case sizes st sz of None \<Rightarrow> False | Some q \<Rightarrow> num_ge q (Fin 0))
       (clothingSizes @ shoeSizes)"

subsection \<open>Example drafts\<close>

text \<open>
  The example of the spec: a red hoodie at 249.90 in the sizes M and L, with 5 and 3
  pieces, and the events that enter it. \<open>draft\<close> is the initial state with a name, a price
  and an image typed in; \<open>mountedCamera\<close> is a state with a mounted video element that
  shows a stream of two tracks; \<open>dataURL\<close> is an encoder for the examples.
\<close>

definition hoodieEvents :: "event list" where
  "hoodieEvents =
     [SetName (str ''  Red Hoodie ''), SetPrice (str ''249.90''),
      ClickSize Sz_M, ClickSize Sz_L,
      ChangeStock Sz_M (str ''5''), ChangeStock Sz_L (str ''3''),
      FileLoaded (str ''data:image/png;base64,iVBORw0KGgo='')]"

definition hoodie :: state where
  "hoodie =
     \<lparr>name = str ''  Red Hoodie '', price = str ''249.90'',
      image' = str ''data:image/png;base64,iVBORw0KGgo='', type = Clothing,
      currentSizes = [Sz_M, Sz_L],
      sizes = initialSizes(Sz_M \<mapsto> Fin 5, Sz_L \<mapsto> Fin 3),
      videoRef = None, streamRef = None, readyState = (\<lambda>t. Live)\<rparr>"

definition draft :: "jsstring \<Rightarrow> jsstring \<Rightarrow> jsstring \<Rightarrow> state" where
  "draft n p i = initial\<lparr>name := n, price := p, image' := i\<rparr>"

definition dataURL :: "jsstring \<Rightarrow> HTMLCanvasElement \<Rightarrow> jsstring" where
  "dataURL mime canvas = str ''data:'' @ mime @ str '';base64,'' @ (case drawn canvas of None \<Rightarrow> [] | Some f \<Rightarrow> [of_nat f])"

definition mountedCamera :: state where
  "mountedCamera =
     initial\<lparr>videoRef := Some \<lparr>srcObject = Some [0, 1], videoWidth = 640, videoHeight = 480,
                                currentFrame = 7\<rparr>,
             streamRef := Some [0, 1]\<rparr>"


section \<open>Facts about the built-ins\<close>

lemmas parse_defs =
  parseFloat_def parseInt_def str_def trimStart_def isStrWhiteSpaceChar_def
  isDigit_def isHexDigit_def digitVal_def digitsValue_def exponentPart_def toDouble_def
  floorLog2_def roundTiesToEven_def pow2_def Let_def

lemma parseFloat_empty: "parseFloat [] = NaN"
  by (simp add: parse_defs)

lemma parseFloat_249_90: "parseFloat (str ''249.90'') = Fin (8792574584999117 / 35184372088832)"
  by (simp add: parse_defs)



lemma parseFloat_abc: "parseFloat (str ''abc'') = NaN"
  by (simp add: parse_defs)

lemma parseFloat_1e309: "parseFloat (str ''1e309'') = PosInf"
  by (simp add: parse_defs)

lemma parseFloat_Infinity: "parseFloat (str ''Infinity'') = PosInf"
  by (simp add: parse_defs)

lemma parseInt_5: "parseInt (str ''5'') = Fin 5"
  by (simp add: parse_defs)

lemma parseInt_3: "parseInt (str ''3'') = Fin 3"
  by (simp add: parse_defs)

lemma parseInt_7: "parseInt (str ''7'') = Fin 7"
  by (simp add: parse_defs)

lemma parseInt_minus_4: "parseInt (str ''-4'') = Fin (- 4)"
  by (simp add: parse_defs)

lemma parseInt_abc: "parseInt (str ''abc'') = NaN"
  by (simp add: parse_defs)

lemma trim_hoodie: "trim (str ''  Red Hoodie '') = str ''Red Hoodie''"
  by (simp add: trim_def trimEnd_def parse_defs)


lemma num_ge_zero_cases: "num_ge q (Fin 0) \<longleftrightarrow> q = PosInf \<or> (\<exists>r. q = Fin r \<and> 0 \<le> r)"
  by (cases q) (simp_all add: num_ge_def)

lemma num_le_zero_cases: "num_le q (Fin 0) \<longleftrightarrow> q = NegInf \<or> (\<exists>r. q = Fin r \<and> r \<le> 0)"
  by (cases q) simp_all

lemma num_lt_zero_cases: "num_lt q (Fin 0) \<longleftrightarrow> q = NegInf \<or> (\<exists>r. q = Fin r \<and> r < 0)"
  by (cases q) (auto simp: num_lt_def)

lemma num_gt_zero_cases: "num_gt q (Fin 0) \<longleftrightarrow> q = PosInf \<or> (\<exists>r. q = Fin r \<and> 0 < r)"
  by (cases q) (auto simp: num_gt_def num_lt_def)

lemma orZero_nonneg: "num_ge q (Fin 0) \<Longrightarrow> orZero (Some q) = q"
  by (auto simp: orZero_def truthy_def num_ge_zero_cases)

section \<open>Facts about the size labels and the size maps\<close>

lemma all_labels: "set (clothingSizes @ shoeSizes) = UNIV"
proof -
  have "sz \<in> set (clothingSizes @ shoeSizes)" for sz
    by (cases sz) (simp_all add: clothingSizes_def shoeSizes_def)
  then show ?thesis by blast
qed

lemma initialSizes_apply: "initialSizes sz = Some (Fin 0)"
  by (cases sz) (simp_all add: initialSizes_def)

lemma dom_initialSizes: "dom initialSizes = UNIV"
  using initialSizes_apply by (auto simp: dom_def)

lemma foldl_entries:
  "foldl (\<lambda>obj (k, v). obj(k \<mapsto> v)) m (map (\<lambda>k. (k, f k)) ks) k =
     (if k \<in> set ks then Some (f k) else m k)"
  by (induction ks arbitrary: m) auto

lemma fromEntries_apply:
  "fromEntries (map (\<lambda>k. (k, f k)) ks) k = (if k \<in> set ks then Some (f k) else None)"
  by (simp add: fromEntries_def foldl_entries)

lemma stockNonNegative_iff:
  "stockNonNegative st \<longleftrightarrow> (\<forall>sz q. sizes st sz = Some q \<longrightarrow> num_ge q (Fin 0))"
  unfolding stockNonNegative_def list_all_iff all_labels
  by (auto split: option.splits)

lemma stockComplete_iff:
  "stockComplete st \<longleftrightarrow> (\<forall>sz. \<exists>q. sizes st sz = Some q \<and> num_ge q (Fin 0))"
  unfolding stockComplete_def list_all_iff all_labels
  by (fastforce split: option.splits)

section \<open>Facts about the handlers\<close>

lemma msgs_distinct: "msgFields \<noteq> msgPrice" "msgPrice \<noteq> msgFields"
  by (simp_all add: msgFields_def msgPrice_def str_def)

lemma stopCamera_fields [simp]:
  "name (stopCamera st) = name st"
  "price (stopCamera st) = price st"
  "image' (stopCamera st) = image' st"
  "type (stopCamera st) = type st"
  "currentSizes (stopCamera st) = currentSizes st"
  "sizes (stopCamera st) = sizes st"
  "videoRef (stopCamera st) = videoRef st"
  by (simp_all add: stopCamera_def split: option.split)

lemma capturePhoto_fields [simp]:
  "name (capturePhoto toDataURL ctx st) = name st"
  "price (capturePhoto toDataURL ctx st) = price st"
  "type (capturePhoto toDataURL ctx st) = type st"
  "currentSizes (capturePhoto toDataURL ctx st) = currentSizes st"
  "sizes (capturePhoto toDataURL ctx st) = sizes st"
  "videoRef (capturePhoto toDataURL ctx st) = videoRef st"
  by (simp_all add: capturePhoto_def Let_def split: option.split)

lemma handleSubmit_state [simp]: "fst (handleSubmit now st) = st"
  by (simp add: handleSubmit_def Let_def)

lemma handleStockChange_stored:
  "sizes (handleStockChange sz v st) =
     (sizes st)(sz \<mapsto> (if isNaN (parseInt v) \<or> num_lt (parseInt v) (Fin 0) then Fin 0 else parseInt v))"
  by (cases "parseInt v")
     (auto simp: handleStockChange_def Let_def truthy_def isNaN_def num_ge_def num_lt_def)

lemma stored_nonneg:
  "num_ge (if isNaN p \<or> num_lt p (Fin 0) then Fin 0 else p) (Fin 0)"
  by (cases p) (auto simp: isNaN_def num_ge_def num_lt_def)

lemmas handler_defs =
  onTypeChange_def handleSizeToggle_def onloadend_def startCamera_resolved_def
  startCamera_rejected_def

lemma stockNonNegative_handle:
  assumes "stockNonNegative st"
  shows "stockNonNegative (fst (handle toDataURL ev st))"
proof (cases ev)
  case (ChangeStock sz v)
  with assms stored_nonneg [of "parseInt v"] show ?thesis
    by (auto simp: stockNonNegative_iff handleStockChange_stored split: if_splits)
qed (use assms in \<open>simp_all add: stockNonNegative_iff handler_defs\<close>)

lemma stockComplete_handle:
  assumes "stockComplete st"
  shows "stockComplete (fst (handle toDataURL ev st))"
proof (cases ev)
  case (ChangeStock sz v)
  with assms stored_nonneg [of "parseInt v"] show ?thesis
    by (auto simp: stockComplete_iff handleStockChange_stored split: if_splits)
qed (use assms in \<open>simp_all add: stockComplete_iff handler_defs\<close>)

lemma stockNonNegative_initial: "stockNonNegative initial"
  by (simp add: stockNonNegative_iff initial_def initialSizes_apply num_ge_def)

lemma stockComplete_initial: "stockComplete initial"
  by (simp add: stockComplete_iff initial_def initialSizes_apply num_ge_def)

section \<open>Runs\<close>

text \<open>A property that every rendered event preserves holds along every run.\<close>

lemma run_invariant:
  assumes step: "\<And>ev s. P s \<Longrightarrow> rendered s ev \<Longrightarrow> P (fst (handle toDataURL ev s))"
      and start: "P st"
      and runs: "run toDataURL st evs = Some (st', fx)"
  shows "P st'"
  using start runs
proof (induction evs arbitrary: st fx)
  case Nil
  then show ?case by simp
next
  case (Cons ev evs)
  from Cons.prems(2) have r: "rendered st ev"
    by (simp split: if_splits)
  obtain s1 fx1 where h: "handle toDataURL ev st = (s1, fx1)"
    by (cases "handle toDataURL ev st")
  from Cons.prems(2) r h obtain fx2 where "run toDataURL s1 evs = Some (st', fx2)"
    by (auto split: option.splits)
  moreover have "P s1"
    using step [OF Cons.prems(1) r] h by simp
  ultimately show ?case
    using Cons.IH by blast
qed

lemma stockComplete_reachable:
  "run toDataURL initial evs = Some (st, fx) \<Longrightarrow> stockComplete st"
  by (rule run_invariant [where P = stockComplete, OF stockComplete_handle stockComplete_initial])

lemma stockNonNegative_reachable:
  "run toDataURL initial evs = Some (st, fx) \<Longrightarrow> stockNonNegative st"
  by (rule run_invariant [where P = stockNonNegative, OF stockNonNegative_handle stockNonNegative_initial])

lemma hoodie_reachable: "run toDataURL initial hoodieEvents = Some (hoodie, [])"
  by (simp add: hoodieEvents_def hoodie_def initial_def sizeCatalog_def clothingSizes_def
      handleSizeToggle_def handleStockChange_def onloadend_def parseInt_5 parseInt_3
      truthy_def num_ge_def)

lemma hoodie_name: "trim (name hoodie) = str ''Red Hoodie''"
  by (simp add: hoodie_def trim_hoodie)

lemma hoodie_price: "parseFloat (price hoodie) = Fin (8792574584999117 / 35184372088832)"
  by (simp add: hoodie_def parseFloat_249_90)

lemma hoodie_image: "image' hoodie = str ''data:image/png;base64,iVBORw0KGgo=''"
  by (simp add: hoodie_def)

lemma hoodie_valid:
  "trim (name hoodie) \<noteq> []"
  "num_gt (parseFloat (price hoodie)) (Fin 0)"
  "image' hoodie \<noteq> []"
  by (simp_all add: hoodie_name hoodie_price hoodie_image num_gt_def num_lt_def, simp_all add: str_def)

section \<open>Submitting a valid draft\<close>

text \<open>
  C1. In every state the component can reach in which the trimmed name is not empty, the
  price text parses to a number \<open>> 0\<close> and the image is not empty, submitting changes no
  state and passes one request to the creation callback, followed by the close callback.
  The request's name is the trimmed name, its price is the parsed number, the keys of its
  size map are exactly the nine clothing and ten shoe labels, its value at each selected
  size is that size's stock map entry, and its value at every other key is 0.
\<close>

theorem C1_submit_builds_full_request:
  assumes reach: "run toDataURL initial evs = Some (st, fx)"
      and nm: "trim (name st) \<noteq> []"
      and pr: "num_gt (parseFloat (price st)) (Fin 0)"
      and im: "image' st \<noteq> []"
  shows "\<exists>product.
           handleSubmit now st = (st, [PreventDefault, OnAdd product, OnClose]) \<and>
           product_name product = trim (name st) \<and>
           product_price product = parseFloat (price st) \<and>
           dom (product_sizes product) = set (clothingSizes @ shoeSizes) \<and>
           (\<forall>sz \<in> set (currentSizes st). product_sizes product sz = sizes st sz) \<and>
           (\<forall>sz. sz \<notin> set (currentSizes st) \<longrightarrow> product_sizes product sz = Some (Fin 0))"
proof -
  define entries where
    "entries = fromEntries (map (\<lambda>size. (size, orZero (sizes st size))) (currentSizes st))"
  define product where
    "product = \<lparr>product_name = trim (name st), product_price = parseFloat (price st),
                 product_image = image' st, product_type = type st,
                 product_sizes = initialSizes ++ entries, product_createdAt = now\<rparr>"
  from pr have pos: "\<not> isNaN (parseFloat (price st))" "\<not> num_le (parseFloat (price st)) (Fin 0)"
    by (auto simp: num_gt_zero_cases num_le_zero_cases isNaN_def)
  from pos(1) have "price st \<noteq> []"
    using parseFloat_empty by (auto simp: isNaN_def)
  with nm im pos have submit: "handleSubmit now st = (st, [PreventDefault, OnAdd product, OnClose])"
    by (simp add: handleSubmit_def Let_def product_def entries_def)
  have entry: "entries sz = (if sz \<in> set (currentSizes st) then Some (orZero (sizes st sz)) else None)" for sz
    unfolding entries_def by (rule fromEntries_apply)
  have complete: "stockComplete st"
    using reach by (rule stockComplete_reachable)
  have selected: "product_sizes product sz = sizes st sz" if "sz \<in> set (currentSizes st)" for sz
  proof -
    from complete obtain q where q: "sizes st sz = Some q" "num_ge q (Fin 0)"
      unfolding stockComplete_iff by blast
    then have "orZero (sizes st sz) = q"
      by (simp add: orZero_nonneg)
    with that q show ?thesis
      by (simp add: product_def map_add_def entry)
  qed
  have unselected: "product_sizes product sz = Some (Fin 0)" if "sz \<notin> set (currentSizes st)" for sz
    using that by (simp add: product_def map_add_def entry initialSizes_apply)
  have "dom (product_sizes product) = UNIV"
    by (auto simp: product_def dom_initialSizes)
  then have keys: "dom (product_sizes product) = set (clothingSizes @ shoeSizes)"
    by (simp only: all_labels)
  from submit keys selected unselected show ?thesis
    by (intro exI [of _ product]) (simp add: product_def)
qed

theorem C1_witness:
  "run dataURL initial hoodieEvents = Some (hoodie, []) \<and>
   trim (name hoodie) = str ''Red Hoodie'' \<and>
   parseFloat (price hoodie) = Fin (8792574584999117 / 35184372088832) \<and>
   image' hoodie = str ''data:image/png;base64,iVBORw0KGgo='' \<and>
   (\<exists>product.
      handleSubmit (Fin 1700000000000) hoodie = (hoodie, [PreventDefault, OnAdd product, OnClose]) \<and>
      product_name product = str ''Red Hoodie'' \<and>
      product_price product = Fin (8792574584999117 / 35184372088832) \<and>
      dom (product_sizes product) = set (clothingSizes @ shoeSizes) \<and>
      product_sizes product Sz_M = Some (Fin 5) \<and>
      product_sizes product Sz_L = Some (Fin 3) \<and>
      product_sizes product Sz_S = Some (Fin 0) \<and>
      product_sizes product Sz_42 = Some (Fin 0))"
proof -
  from C1_submit_builds_full_request
         [OF hoodie_reachable [of dataURL] hoodie_valid, where now = "Fin 1700000000000"]
  obtain product where p:
    "handleSubmit (Fin 1700000000000) hoodie = (hoodie, [PreventDefault, OnAdd product, OnClose])"
    "product_name product = trim (name hoodie)"
    "product_price product = parseFloat (price hoodie)"
    "dom (product_sizes product) = set (clothingSizes @ shoeSizes)"
    "\<forall>sz \<in> set (currentSizes hoodie). product_sizes product sz = sizes hoodie sz"
    "\<forall>sz. sz \<notin> set (currentSizes hoodie) \<longrightarrow> product_sizes product sz = Some (Fin 0)"
    by blast
  from p(5) have "product_sizes product Sz_M = Some (Fin 5)" "product_sizes product Sz_L = Some (Fin 3)"
    by (simp_all add: hoodie_def)
  moreover from p(6) have "product_sizes product Sz_S = Some (Fin 0)" "product_sizes product Sz_42 = Some (Fin 0)"
    by (simp_all add: hoodie_def)
  ultimately show ?thesis
    using hoodie_reachable hoodie_name hoodie_price hoodie_image p(1,2,3,4) by auto
qed

section \<open>Submitting an invalid draft\<close>


lemma parseFloat_decimal_comma: "parseFloat (str ''249,90'') = Fin 249"
  by (simp add: parse_defs)




section \<open>The price check\<close>

text \<open>
  C3, as the claim states it, fails: the price text \<open>1e309\<close> parses to \<open>Infinity\<close>, which
  is neither NaN nor \<open><= 0\<close>, so the draft passes both guards and a request with an
  infinite price is handed to the creation callback. (The literal \<open>Infinity\<close> parses to
  the same value.)
\<close>

theorem C3_counterexample:
  "parseFloat (str ''1e309'') = PosInf \<and>
   handleSubmit (Fin 0) (draft (str ''Scarf'') (str ''1e309'') (str ''data:,'')) =
     (draft (str ''Scarf'') (str ''1e309'') (str ''data:,''),
      [PreventDefault,
       OnAdd \<lparr>product_name = str ''Scarf'', product_price = PosInf,
              product_image = str ''data:,'', product_type = Clothing,
              product_sizes = initialSizes, product_createdAt = Fin 0\<rparr>,
       OnClose])"
proof -
  have "trim (str ''Scarf'') = str ''Scarf''"
    by (simp add: trim_def trimEnd_def parse_defs)
  moreover have "str ''Scarf'' \<noteq> []" "str ''1e309'' \<noteq> []" "str ''data:,'' \<noteq> []"
    by (simp_all add: str_def)
  ultimately show ?thesis
    by (simp add: handleSubmit_def draft_def initial_def parseFloat_1e309 isNaN_def
        fromEntries_def)
qed

text \<open>
  C3, amended. The price check tests NaN and the sign, not finiteness. Every price text
  that is empty, or parses to NaN, or parses to a value \<open><= 0\<close> (minus infinity included)
  makes the submit handler report a validation failure with one of its alerts and build
  no request. With a name and an image that pass the first guard, every price text that
  parses to a value \<open>> 0\<close>, plus infinity included, passes, and the request carries the
  parsed value as its price.
\<close>

theorem C3_price_check:
  "(price st = [] \<or> isNaN (parseFloat (price st)) \<or> num_le (parseFloat (price st)) (Fin 0) \<longrightarrow>
      (handleSubmit now st = (st, [PreventDefault, Alert msgFields]) \<or>
       handleSubmit now st = (st, [PreventDefault, Alert msgPrice]))) \<and>
   (trim (name st) \<noteq> [] \<and> image' st \<noteq> [] \<and> num_gt (parseFloat (price st)) (Fin 0) \<longrightarrow>
      (\<exists>product. handleSubmit now st = (st, [PreventDefault, OnAdd product, OnClose]) \<and>
                 product_price product = parseFloat (price st)))"
proof (intro conjI impI)
  assume "price st = [] \<or> isNaN (parseFloat (price st)) \<or> num_le (parseFloat (price st)) (Fin 0)"
  then show "handleSubmit now st = (st, [PreventDefault, Alert msgFields]) \<or>
             handleSubmit now st = (st, [PreventDefault, Alert msgPrice])"
    by (auto simp: handleSubmit_def Let_def)
next
  assume ok: "trim (name st) \<noteq> [] \<and> image' st \<noteq> [] \<and> num_gt (parseFloat (price st)) (Fin 0)"
  then have pos: "\<not> isNaN (parseFloat (price st))" "\<not> num_le (parseFloat (price st)) (Fin 0)"
    by (auto simp: num_gt_zero_cases num_le_zero_cases isNaN_def)
  from pos(1) have "price st \<noteq> []"
    using parseFloat_empty by (auto simp: isNaN_def)
  with ok pos show "\<exists>product. handleSubmit now st = (st, [PreventDefault, OnAdd product, OnClose]) \<and>
                              product_price product = parseFloat (price st)"
    by (simp add: handleSubmit_def Let_def)
qed

theorem C3_witness:
  "handleSubmit (Fin 0) (draft (str ''Scarf'') (str ''abc'') (str ''data:,'')) =
     (draft (str ''Scarf'') (str ''abc'') (str ''data:,''), [PreventDefault, Alert msgPrice]) \<and>
   (\<exists>product. handleSubmit (Fin 0) hoodie = (hoodie, [PreventDefault, OnAdd product, OnClose]) \<and>
              product_price product = Fin (8792574584999117 / 35184372088832))"
proof -
  let ?d = "draft (str ''Scarf'') (str ''abc'') (str ''data:,'')"
  have "isNaN (parseFloat (price ?d))"
    by (simp add: draft_def parseFloat_abc isNaN_def)
  with C3_price_check [of ?d "Fin 0"]
  have "handleSubmit (Fin 0) ?d = (?d, [PreventDefault, Alert msgFields]) \<or>
        handleSubmit (Fin 0) ?d = (?d, [PreventDefault, Alert msgPrice])"
    by blast
  moreover have "trim (str ''Scarf'') \<noteq> []" "str ''abc'' \<noteq> []" "str ''data:,'' \<noteq> []"
    by (simp_all add: trim_def trimEnd_def parse_defs)
  then have "handleSubmit (Fin 0) ?d \<noteq> (?d, [PreventDefault, Alert msgFields])"
    by (simp add: handleSubmit_def draft_def Let_def msgs_distinct)
  ultimately have bad: "handleSubmit (Fin 0) ?d = (?d, [PreventDefault, Alert msgPrice])"
    by blast
  have "\<exists>product. handleSubmit (Fin 0) hoodie = (hoodie, [PreventDefault, OnAdd product, OnClose]) \<and>
                  product_price product = Fin (8792574584999117 / 35184372088832)"
    using C3_price_check [of hoodie "Fin 0"] hoodie_valid hoodie_price by auto
  with bad show ?thesis
    by blast
qed

section \<open>The stock map\<close>

text \<open>
  C4. \<open>handleStockChange\<close> (the spec's \<open>setStock\<close>) stores 0 when the raw text does not
  parse as an integer (NaN) or parses to a negative value, and the parsed value
  otherwise. Every handler keeps all quantities of the stock map \<open>>= 0\<close>, they are so at
  mount, and so they are in every state the component can reach.
\<close>

theorem C4_stock_never_negative:
  "sizes (handleStockChange sz v st) sz =
     Some (if isNaN (parseInt v) \<or> num_lt (parseInt v) (Fin 0) then Fin 0 else parseInt v) \<and>
   (stockNonNegative st \<longrightarrow> stockNonNegative (fst (handle toDataURL ev st))) \<and>
   stockNonNegative initial \<and>
   (run toDataURL initial evs = Some (st', fx) \<longrightarrow> stockNonNegative st')"
  using stockNonNegative_handle [of st toDataURL ev] stockNonNegative_initial
    stockNonNegative_reachable [of toDataURL evs st' fx]
  by (simp add: handleStockChange_stored)

theorem C4_witness:
  "sizes (handleStockChange Sz_M (str ''-4'') hoodie) Sz_M = Some (Fin 0) \<and>
   sizes (handleStockChange Sz_M (str ''abc'') hoodie) Sz_M = Some (Fin 0) \<and>
   sizes (handleStockChange Sz_M (str ''7'') hoodie) Sz_M = Some (Fin 7) \<and>
   stockNonNegative hoodie \<and>
   stockNonNegative (fst (handle dataURL (ChangeStock Sz_M (str ''-4'')) hoodie))"
proof -
  note c4 = C4_stock_never_negative [where st = hoodie and sz = Sz_M and toDataURL = dataURL
      and evs = hoodieEvents and st' = hoodie and fx = "[]"]
  have "sizes (handleStockChange Sz_M (str ''-4'') hoodie) Sz_M = Some (Fin 0)"
    using c4 [of "str ''-4''"] by (simp add: parseInt_minus_4 isNaN_def num_lt_def)
  moreover have "sizes (handleStockChange Sz_M (str ''abc'') hoodie) Sz_M = Some (Fin 0)"
    using c4 [of "str ''abc''"] by (simp add: parseInt_abc isNaN_def)
  moreover have "sizes (handleStockChange Sz_M (str ''7'') hoodie) Sz_M = Some (Fin 7)"
    using c4 [of "str ''7''"] by (simp add: parseInt_7 isNaN_def num_lt_def)
  moreover have ok: "stockNonNegative hoodie"
    using c4 [of "str ''7''"] hoodie_reachable [of dataURL] by simp
  moreover have "stockNonNegative (fst (handle dataURL (ChangeStock Sz_M (str ''-4'')) hoodie))"
    using c4 [of "str ''7''" "ChangeStock Sz_M (str ''-4'')"] ok by blast
  ultimately show ?thesis
    by blast
qed

text \<open>
  C7. \<open>handleStockChange sz v\<close> changes at most the stock map entry of \<open>sz\<close>: the new state
  is the old one with one quantity stored at \<open>sz\<close>, so every entry of another size, and
  the name, the price, the image, the type, the selected sizes and the camera refs, are
  what they were.
\<close>

theorem C7_setStock_frame:
  "(\<exists>q. handleStockChange sz v st = st\<lparr>sizes := (sizes st)(sz \<mapsto> q)\<rparr>) \<and>
   (\<forall>other. other \<noteq> sz \<longrightarrow> sizes (handleStockChange sz v st) other = sizes st other) \<and>
   name (handleStockChange sz v st) = name st \<and>
   price (handleStockChange sz v st) = price st \<and>
   image' (handleStockChange sz v st) = image' st \<and>
   type (handleStockChange sz v st) = type st \<and>
   currentSizes (handleStockChange sz v st) = currentSizes st \<and>
   videoRef (handleStockChange sz v st) = videoRef st \<and>
   streamRef (handleStockChange sz v st) = streamRef st \<and>
   readyState (handleStockChange sz v st) = readyState st"
  by (auto simp: handleStockChange_def Let_def)

theorem C7_witness:
  "sizes (handleStockChange Sz_M (str ''7'') hoodie) Sz_M = Some (Fin 7) \<and>
   sizes (handleStockChange Sz_M (str ''7'') hoodie) Sz_L = Some (Fin 3) \<and>
   sizes (handleStockChange Sz_M (str ''7'') hoodie) Sz_42 = Some (Fin 0) \<and>
   name (handleStockChange Sz_M (str ''7'') hoodie) = str ''  Red Hoodie '' \<and>
   price (handleStockChange Sz_M (str ''7'') hoodie) = str ''249.90'' \<and>
   currentSizes (handleStockChange Sz_M (str ''7'') hoodie) = [Sz_M, Sz_L]"
proof -
  note c7 = C7_setStock_frame [of Sz_M "str ''7''" hoodie]
  from c7 have "sizes (handleStockChange Sz_M (str ''7'') hoodie) Sz_L = sizes hoodie Sz_L"
    "sizes (handleStockChange Sz_M (str ''7'') hoodie) Sz_42 = sizes hoodie Sz_42"
    by simp_all
  moreover have "sizes (handleStockChange Sz_M (str ''7'') hoodie) Sz_M = Some (Fin 7)"
    by (simp add: handleStockChange_stored parseInt_7 isNaN_def num_lt_def)
  moreover from c7 have "name (handleStockChange Sz_M (str ''7'') hoodie) = name hoodie"
    "price (handleStockChange Sz_M (str ''7'') hoodie) = price hoodie"
    "currentSizes (handleStockChange Sz_M (str ''7'') hoodie) = currentSizes hoodie"
    by simp_all
  ultimately show ?thesis
    by (simp add: hoodie_def initialSizes_apply)
qed

section \<open>The selected sizes\<close>

text \<open>
  C5. \<open>handleSizeToggle sz\<close> (the spec's \<open>toggleSize\<close>) removes \<open>sz\<close> from the selected
  sizes if it is a member, keeping the others in their order, and appends it at the end
  otherwise. So one toggle flips the membership of \<open>sz\<close>, and two toggles leave it as it
  was: a size that is absent before two toggles is absent after them.
\<close>

theorem C5_toggle_twice:
  "(sz \<in> set (currentSizes st) \<longrightarrow>
      currentSizes (handleSizeToggle sz st) = filter (\<lambda>s. s \<noteq> sz) (currentSizes st) \<and>
      sz \<notin> set (currentSizes (handleSizeToggle sz st))) \<and>
   (sz \<notin> set (currentSizes st) \<longrightarrow>
      currentSizes (handleSizeToggle sz st) = currentSizes st @ [sz]) \<and>
   (sz \<in> set (currentSizes (handleSizeToggle sz (handleSizeToggle sz st))) \<longleftrightarrow>
      sz \<in> set (currentSizes st))"
  by (simp add: handleSizeToggle_def Let_def)

theorem C5_witness:
  "currentSizes (handleSizeToggle Sz_M hoodie) = [Sz_L] \<and>
   currentSizes (handleSizeToggle Sz_S hoodie) = [Sz_M, Sz_L, Sz_S] \<and>
   Sz_M \<in> set (currentSizes (handleSizeToggle Sz_M (handleSizeToggle Sz_M hoodie))) \<and>
   Sz_S \<notin> set (currentSizes (handleSizeToggle Sz_S (handleSizeToggle Sz_S hoodie)))"
proof -
  have sel: "currentSizes hoodie = [Sz_M, Sz_L]"
    by (simp add: hoodie_def)
  from C5_toggle_twice [of Sz_M hoodie]
  have "currentSizes (handleSizeToggle Sz_M hoodie) = [Sz_L]"
    "Sz_M \<in> set (currentSizes (handleSizeToggle Sz_M (handleSizeToggle Sz_M hoodie)))"
    by (simp_all add: sel)
  moreover from C5_toggle_twice [of Sz_S hoodie]
  have "currentSizes (handleSizeToggle Sz_S hoodie) = [Sz_M, Sz_L, Sz_S]"
    "Sz_S \<notin> set (currentSizes (handleSizeToggle Sz_S (handleSizeToggle Sz_S hoodie)))"
    by (simp_all add: sel)
  ultimately show ?thesis
    by blast
qed

lemma catalog_handle:
  assumes "set (currentSizes st) \<subseteq> set (sizeCatalog (type st))" and "rendered st ev"
  shows "set (currentSizes (fst (handle toDataURL ev st))) \<subseteq>
         set (sizeCatalog (type (fst (handle toDataURL ev st))))"
  using assms
  by (cases ev) (auto simp: handler_defs handleStockChange_def Let_def)

lemma catalog_reachable:
  assumes "run toDataURL initial evs = Some (st, fx)"
  shows "set (currentSizes st) \<subseteq> set (sizeCatalog (type st))"
proof (rule run_invariant [where P = "\<lambda>s. set (currentSizes s) \<subseteq> set (sizeCatalog (type s))", OF _ _ assms])
  show "set (currentSizes initial) \<subseteq> set (sizeCatalog (type initial))"
    by (simp add: initial_def)
qed (rule catalog_handle)

text \<open>
  C6. Choosing a product type sets the type and resets the selected sizes to the empty
  list, whatever was selected before. A size button exists only for the labels of the
  catalog of the current type, so in every state the component can reach the selected
  sizes are labels of that catalog: clothing labels when the type is clothing, shoe
  labels when it is shoes.
\<close>

theorem C6_selected_within_catalog:
  "currentSizes (onTypeChange t st) = [] \<and>
   type (onTypeChange t st) = t \<and>
   (run toDataURL initial evs = Some (st', fx) \<longrightarrow>
      set (currentSizes st') \<subseteq> set (if type st' = Clothing then clothingSizes else shoeSizes))"
  using catalog_reachable [of toDataURL evs st' fx]
  by (simp add: onTypeChange_def sizeCatalog_def)

theorem C6_witness:
  "currentSizes (onTypeChange Shoes hoodie) = [] \<and>
   type (onTypeChange Shoes hoodie) = Shoes \<and>
   run dataURL initial hoodieEvents = Some (hoodie, []) \<and>
   type hoodie = Clothing \<and>
   set (currentSizes hoodie) \<subseteq> set clothingSizes"
proof -
  note c6 = C6_selected_within_catalog [of Shoes hoodie dataURL hoodieEvents hoodie "[]"]
  have "type hoodie = Clothing"
    by (simp add: hoodie_def)
  with c6 hoodie_reachable [of dataURL] show ?thesis
    by simp
qed

section \<open>The camera\<close>

lemma stop_tracks:
  "foldl (\<lambda>rs track. rs(track := Ended)) rs stream t = (if t \<in> set stream then Ended else rs t)"
  by (induction stream arbitrary: rs) auto

lemma stopCamera_idle: "streamRef st = None \<Longrightarrow> stopCamera st = st"
  by (simp add: stopCamera_def)

lemma stopCamera_releases:
  assumes "streamRef st = Some stream"
  shows "streamRef (stopCamera st) = None"
    and "readyState (stopCamera st) t = (if t \<in> set stream then Ended else readyState st t)"
  using assms by (simp_all add: stopCamera_def stop_tracks)

lemma stopCamera_streamRef [simp]: "streamRef (stopCamera st) = None"
  by (simp add: stopCamera_def split: option.split)

text \<open>
  C9. \<open>stopCamera\<close> returns a state in every case (it has no failing path). With no
  stream handle held it changes nothing. With a handle held it stops every track of the
  stream, leaves every other track as it was, and clears the handle. So after one call
  no handle is held, and a second call changes nothing: \<open>stopCamera\<close> is idempotent.
\<close>

theorem C9_stopCamera_idempotent:
  "(streamRef st = None \<longrightarrow> stopCamera st = st) \<and>
   (\<forall>stream. streamRef st = Some stream \<longrightarrow>
      streamRef (stopCamera st) = None \<and>
      (\<forall>t \<in> set stream. readyState (stopCamera st) t = Ended) \<and>
      (\<forall>t. t \<notin> set stream \<longrightarrow> readyState (stopCamera st) t = readyState st t)) \<and>
   stopCamera (stopCamera st) = stopCamera st"
proof (intro conjI allI impI)
  show "stopCamera (stopCamera st) = stopCamera st"
    by (rule stopCamera_idle) simp
qed (simp_all add: stopCamera_idle stopCamera_releases)

theorem C9_witness:
  "stopCamera initial = initial \<and>
   streamRef mountedCamera = Some [0, 1] \<and>
   streamRef (stopCamera mountedCamera) = None \<and>
   readyState (stopCamera mountedCamera) 0 = Ended \<and>
   readyState (stopCamera mountedCamera) 1 = Ended \<and>
   readyState (stopCamera mountedCamera) 2 = Live \<and>
   stopCamera (stopCamera mountedCamera) = stopCamera mountedCamera"
proof -
  have idle: "streamRef initial = None"
    by (simp add: initial_def)
  have held: "streamRef mountedCamera = Some [0, 1]"
    by (simp add: mountedCamera_def)
  have live: "readyState mountedCamera 2 = Live"
    by (simp add: mountedCamera_def initial_def)
  from C9_stopCamera_idempotent [of initial] idle have "stopCamera initial = initial"
    by blast
  moreover from C9_stopCamera_idempotent [of mountedCamera] held
  have "streamRef (stopCamera mountedCamera) = None"
    "\<forall>t \<in> set [0, 1]. readyState (stopCamera mountedCamera) t = Ended"
    "\<forall>t. t \<notin> set [0, 1] \<longrightarrow> readyState (stopCamera mountedCamera) t = readyState mountedCamera t"
    "stopCamera (stopCamera mountedCamera) = stopCamera mountedCamera"
    by blast+
  ultimately show ?thesis
    using held live by simp
qed

text \<open>
  What \<open>capturePhoto\<close> does once a video element is mounted and the canvas yields a 2D
  context: it stores as the image the platform's encoding, for the type \<open>image/jpeg\<close>,
  of a canvas that has the video's \<open>videoWidth\<close> and \<open>videoHeight\<close> and shows the current
  frame, and right after that it runs \<open>stopCamera\<close>, so that no stream handle is held
  afterwards and every track of a stream that was held is stopped.
\<close>

lemma capturePhoto_mounted:
  assumes "videoRef st = Some video"
  shows "capturePhoto toDataURL True st =
           stopCamera (st\<lparr>image' := toDataURL (str ''image/jpeg'')
                                     \<lparr>width = videoWidth video, height = videoHeight video,
                                      drawn = Some (currentFrame video)\<rparr>\<rparr>)"
    and "image' (capturePhoto toDataURL True st) =
           toDataURL (str ''image/jpeg'')
             \<lparr>width = videoWidth video, height = videoHeight video,
              drawn = Some (currentFrame video)\<rparr>"
    and "streamRef (capturePhoto toDataURL True st) = None"
    and "streamRef st = Some stream \<Longrightarrow> t \<in> set stream \<Longrightarrow>
           readyState (capturePhoto toDataURL True st) t = Ended"
  using assms
  by (simp_all add: capturePhoto_def Let_def stopCamera_def stop_tracks split: option.split)

text \<open>
  The video element is part of the camera overlay, together with the capture and the
  cancel button, and the overlay is rendered only when \<open>videoRef.current\<close> is already set
  (line 301). Only mounting the video element could set it, and no handler does. So no
  run mounts a video element, no run stops a track, and a stream handle that is held
  stays held.
\<close>

lemma camera_idle_handle:
  assumes "videoRef st = None \<and> (\<forall>t. readyState st t = Live)" and "rendered st ev"
  shows "videoRef (fst (handle toDataURL ev st)) = None \<and>
         (\<forall>t. readyState (fst (handle toDataURL ev st)) t = Live)"
  using assms
  by (cases ev) (simp_all add: handler_defs handleStockChange_def Let_def)

lemma camera_idle_reachable:
  assumes "run toDataURL initial evs = Some (st, fx)"
  shows "videoRef st = None \<and> (\<forall>t. readyState st t = Live)"
proof (rule run_invariant [where P = "\<lambda>s. videoRef s = None \<and> (\<forall>t. readyState s t = Live)", OF _ _ assms])
  show "videoRef initial = None \<and> (\<forall>t. readyState initial t = Live)"
    by (simp add: initial_def)
qed (rule camera_idle_handle)

lemma stream_held_handle:
  assumes "videoRef st = None \<and> streamRef st \<noteq> None" and "rendered st ev"
  shows "videoRef (fst (handle toDataURL ev st)) = None \<and>
         streamRef (fst (handle toDataURL ev st)) \<noteq> None"
  using assms
  by (cases ev) (simp_all add: handler_defs handleStockChange_def Let_def)

lemma stream_never_released:
  assumes "videoRef st = None" and "streamRef st \<noteq> None"
      and "run toDataURL st evs = Some (st', fx)"
  shows "streamRef st' \<noteq> None"
proof -
  have "videoRef st' = None \<and> streamRef st' \<noteq> None"
    by (rule run_invariant [where P = "\<lambda>s. videoRef s = None \<and> streamRef s \<noteq> None", OF _ _ assms(3)])
       (use assms(1,2) in \<open>simp_all add: stream_held_handle\<close>)
  then show ?thesis
    by simp
qed

text \<open>
  C8. The claim wants \<open>capturePhoto\<close>, with a camera stream active, to store the frame as
  the image and to release the camera. The component never gets there. In every state
  it can reach no video element is mounted, so the capture button and the cancel button
  are not rendered, \<open>capturePhoto\<close> would change nothing if it ran, and every track is
  still live. The failing input is a camera request granted right after mount: the
  stream is active, no image can be captured and the camera is not released.
\<close>

theorem C8_capture_never_offered:
  "run toDataURL initial evs = Some (st, fx) \<longrightarrow>
     videoRef st = None \<and>
     \<not> rendered st (ClickCapture ctx) \<and>
     \<not> rendered st ClickStopCamera \<and>
     capturePhoto toDataURL ctx st = st \<and>
     (\<forall>t. readyState st t = Live)"
proof
  assume "run toDataURL initial evs = Some (st, fx)"
  from camera_idle_reachable [OF this]
  show "videoRef st = None \<and> \<not> rendered st (ClickCapture ctx) \<and> \<not> rendered st ClickStopCamera \<and>
        capturePhoto toDataURL ctx st = st \<and> (\<forall>t. readyState st t = Live)"
    by (simp add: capturePhoto_def)
qed

theorem C8_failing_input:
  "run dataURL initial [CameraGranted [0]] = Some (startCamera_resolved [0] initial, []) \<and>
   streamRef (startCamera_resolved [0] initial) = Some [0] \<and>
   videoRef (startCamera_resolved [0] initial) = None \<and>
   run dataURL initial [CameraGranted [0], ClickCapture True] = None \<and>
   run dataURL initial [CameraGranted [0], ClickStopCamera] = None \<and>
   capturePhoto dataURL True (startCamera_resolved [0] initial) = startCamera_resolved [0] initial \<and>
   image' (startCamera_resolved [0] initial) = [] \<and>
   readyState (startCamera_resolved [0] initial) 0 = Live"
proof -
  have r: "run dataURL initial [CameraGranted [0]] = Some (startCamera_resolved [0] initial, [])"
    by simp
  from C8_capture_never_offered [of dataURL "[CameraGranted [0]]" "startCamera_resolved [0] initial" "[]" True] r
  have "videoRef (startCamera_resolved [0] initial) = None"
    "\<not> rendered (startCamera_resolved [0] initial) (ClickCapture True)"
    "\<not> rendered (startCamera_resolved [0] initial) ClickStopCamera"
    "capturePhoto dataURL True (startCamera_resolved [0] initial) = startCamera_resolved [0] initial"
    "readyState (startCamera_resolved [0] initial) 0 = Live"
    by simp_all
  moreover have "streamRef (startCamera_resolved [0] initial) = Some [0]"
    "image' (startCamera_resolved [0] initial) = []"
    by (simp_all add: startCamera_resolved_def initial_def)
  ultimately show ?thesis
    using r by simp
qed

section \<open>Stale quantities\<close>

text \<open>
  C10. Neither \<open>handleSizeToggle\<close> nor choosing a product type touches the stock map, so a
  quantity entered for a size stays in the map when the size is deselected or the type is
  switched. Hence, from any state in which the draft is valid and a size \<open>sz\<close> of the
  current catalog is selected: entering a stock text that parses to \<open>q > 0\<close> for \<open>sz\<close>,
  toggling \<open>sz\<close> off, toggling it on again and submitting emits a request whose size map
  has the stale \<open>q\<close>, not 0, at \<open>sz\<close>.
\<close>

theorem C10_stale_stock_survives:
  "sizes (handleSizeToggle sz st) = sizes st \<and>
   sizes (onTypeChange t st) = sizes st \<and>
   (sz \<in> set (currentSizes st) \<and> sz \<in> set (sizeCatalog (type st)) \<and>
    parseInt v = Fin q \<and> 0 < q \<and>
    trim (name st) \<noteq> [] \<and> num_gt (parseFloat (price st)) (Fin 0) \<and> image' st \<noteq> [] \<longrightarrow>
      (\<exists>st' product.
         run toDataURL st [ChangeStock sz v, ClickSize sz, ClickSize sz, SubmitForm now] =
           Some (st', [PreventDefault, OnAdd product, OnClose]) \<and>
         sz \<in> set (currentSizes st') \<and>
         product_sizes product sz = Some (Fin q)))"
proof (intro conjI impI)
  assume a: "sz \<in> set (currentSizes st) \<and> sz \<in> set (sizeCatalog (type st)) \<and>
             parseInt v = Fin q \<and> 0 < q \<and>
             trim (name st) \<noteq> [] \<and> num_gt (parseFloat (price st)) (Fin 0) \<and> image' st \<noteq> []"
  define st' where "st' = handleSizeToggle sz (handleSizeToggle sz (handleStockChange sz v st))"
  have stored: "sizes st' sz = Some (Fin q)"
    using a by (simp add: st'_def handleSizeToggle_def handleStockChange_stored isNaN_def
        num_lt_def)
  have sel: "sz \<in> set (currentSizes st')"
    using a by (simp add: st'_def handleSizeToggle_def handleStockChange_def Let_def)
  have same: "name st' = name st" "price st' = price st" "image' st' = image' st"
    by (simp_all add: st'_def handleSizeToggle_def handleStockChange_def Let_def)
  from a have pos: "\<not> isNaN (parseFloat (price st))" "\<not> num_le (parseFloat (price st)) (Fin 0)"
    by (auto simp: num_gt_zero_cases num_le_zero_cases isNaN_def)
  from pos(1) have "price st \<noteq> []"
    using parseFloat_empty by (auto simp: isNaN_def)
  with a pos same obtain product where
    submit: "handleSubmit now st' = (st', [PreventDefault, OnAdd product, OnClose])" and
    psizes: "product_sizes product =
               initialSizes ++ fromEntries (map (\<lambda>size. (size, orZero (sizes st' size))) (currentSizes st'))"
    by (simp add: handleSubmit_def Let_def)
  from a have "orZero (Some (Fin q)) = Fin q"
    by (simp add: orZero_def truthy_def)
  with sel stored have "product_sizes product sz = Some (Fin q)"
    by (simp add: psizes map_add_def fromEntries_apply)
  moreover
  have "type (handleStockChange sz v st) = type st"
    "type (handleSizeToggle sz (handleStockChange sz v st)) = type st"
    by (simp_all add: handleStockChange_def handleSizeToggle_def Let_def)
  with a submit
  have "run toDataURL st [ChangeStock sz v, ClickSize sz, ClickSize sz, SubmitForm now] =
          Some (st', [PreventDefault, OnAdd product, OnClose])"
    by (simp add: st'_def)
  ultimately show "\<exists>st' product.
         run toDataURL st [ChangeStock sz v, ClickSize sz, ClickSize sz, SubmitForm now] =
           Some (st', [PreventDefault, OnAdd product, OnClose]) \<and>
         sz \<in> set (currentSizes st') \<and>
         product_sizes product sz = Some (Fin q)"
    using sel by blast
qed (simp_all add: handleSizeToggle_def onTypeChange_def)

theorem C10_witness:
  "run dataURL initial hoodieEvents = Some (hoodie, []) \<and>
   sizes (handleSizeToggle Sz_M hoodie) Sz_M = Some (Fin 5) \<and>
   sizes (onTypeChange Shoes hoodie) Sz_M = Some (Fin 5) \<and>
   (\<exists>st' product.
      run dataURL hoodie
        [ChangeStock Sz_M (str ''7''), ClickSize Sz_M, ClickSize Sz_M, SubmitForm (Fin 0)] =
        Some (st', [PreventDefault, OnAdd product, OnClose]) \<and>
      Sz_M \<in> set (currentSizes st') \<and>
      product_sizes product Sz_M = Some (Fin 7))"
proof -
  note c10 = C10_stale_stock_survives [of Sz_M hoodie Shoes "str ''7''" 7 dataURL "Fin 0"]
  have "Sz_M \<in> set (currentSizes hoodie)" "Sz_M \<in> set (sizeCatalog (type hoodie))"
    by (simp_all add: hoodie_def sizeCatalog_def clothingSizes_def)
  with c10 hoodie_valid parseInt_7
  have "\<exists>st' product.
      run dataURL hoodie
        [ChangeStock Sz_M (str ''7''), ClickSize Sz_M, ClickSize Sz_M, SubmitForm (Fin 0)] =
        Some (st', [PreventDefault, OnAdd product, OnClose]) \<and>
      Sz_M \<in> set (currentSizes st') \<and>
      product_sizes product Sz_M = Some (Fin 7)"
    by simp
  moreover from c10 have "sizes (handleSizeToggle Sz_M hoodie) Sz_M = Some (Fin 5)"
    "sizes (onTypeChange Shoes hoodie) Sz_M = Some (Fin 5)"
    by (simp_all add: hoodie_def)
  ultimately show ?thesis
    using hoodie_reachable [of dataURL] by blast
qed

end
